theory Spec2Isabelle
  imports Main "HOL-Library.Word"
begin

section \<open>The word-count tool of the sandboxed Python runner\<close>

text \<open>
  The development embeds \<^verbatim>\<open>src/core/tool-engine/runners/example-tool.py\<close>:
  \<^verbatim>\<open>
  def run(args):
      text = args.get("text", "")
      if not text:
          return {"ok": False,
                  "error": {"message": "Missing required parameter: text"}}
      words = [w for w in text.strip().split() if w]
      return {"ok": True,
              "data": {"wordCount": len(words),
                       "characterCount": len(text),
                       "words": words[:10]}}
  \<close>
\<close>

subsection \<open>Python values\<close>

text \<open>
  A Python \<^verbatim>\<open>str\<close> is a sequence of Unicode code points and \<^verbatim>\<open>len\<close> counts
  code points, so a string is a list of code points, not of bytes. \<open>py_str\<close> reads an
  ASCII literal.
\<close>

type_synonym codepoint = nat
type_synonym pystr = "codepoint list"

definition py_str :: "string \<Rightarrow> pystr" where
  "py_str s = map of_char s"

text \<open>
  The arguments of an invocation are structured values: \<^verbatim>\<open>None\<close>, booleans,
  unbounded integers, floats (an IEEE 754 double, kept as its 64-bit pattern), strings,
  the bytes-like values \<^verbatim>\<open>bytes\<close> and \<^verbatim>\<open>bytearray\<close> (sequences of 8-bit bytes),
  lists and dictionaries with string keys. A dictionary value keeps its items in
  insertion order.
\<close>

type_synonym byte = "8 word"

datatype pyval =
    PNone
  | PBool bool
  | PInt int
  | PFloat "64 word"
  | PStr pystr
  | PBytes "byte list"
  | PByteArray "byte list"
  | PList "pyval list"
  | PDict "(pystr \<times> pyval) list"

text \<open>The exceptions the tool can raise.\<close>

datatype py_error = AttributeError

text \<open>
  Truth value testing (\<^verbatim>\<open>not text\<close>, \<^verbatim>\<open>if w\<close>): \<^verbatim>\<open>None\<close>, \<^verbatim>\<open>False\<close>, zero of
  a numeric type and empty sequences and mappings are false. A double is zero when all
  bits but the sign bit are clear (\<^verbatim>\<open>0.0\<close> and \<^verbatim>\<open>-0.0\<close>); a NaN is true.
\<close>

fun truthy :: "pyval \<Rightarrow> bool" where
  "truthy PNone = False"
| "truthy (PBool b) = b"
| "truthy (PInt i) = (i \<noteq> 0)"
| "truthy (PFloat w) = (push_bit 1 w \<noteq> 0)"
| "truthy (PStr s) = (s \<noteq> [])"
| "truthy (PBytes b) = (b \<noteq> [])"
| "truthy (PByteArray b) = (b \<noteq> [])"
| "truthy (PList xs) = (xs \<noteq> [])"
| "truthy (PDict kvs) = (kvs \<noteq> [])"

text \<open>\<^verbatim>\<open>args.get(key, default)\<close> on the arguments mapping.\<close>

definition dict_get :: "(pystr \<rightharpoonup> pyval) \<Rightarrow> pystr \<Rightarrow> pyval \<Rightarrow> pyval" where
  "dict_get d k dflt = (case d k of None \<Rightarrow> dflt | Some v \<Rightarrow> v)"

subsection \<open>String methods\<close>

text \<open>
  \<^verbatim>\<open>str.isspace\<close> of one code point, the table behind \<^verbatim>\<open>strip()\<close> and \<^verbatim>\<open>split()\<close>
  without arguments: the code points of bidirectional type WS, B or S and of category
  Zs.
\<close>

definition is_space :: "codepoint \<Rightarrow> bool" where
  "is_space c \<longleftrightarrow>
     (9 \<le> c \<and> c \<le> 13) \<or> (28 \<le> c \<and> c \<le> 32) \<or> c = 133 \<or> c = 160 \<or>
     c = 5760 \<or> (8192 \<le> c \<and> c \<le> 8202) \<or> c = 8232 \<or> c = 8233 \<or>
     c = 8239 \<or> c = 8287 \<or> c = 12288"

text \<open>\<^verbatim>\<open>text.strip()\<close>: leading and trailing whitespace removed.\<close>

definition str_strip :: "pystr \<Rightarrow> pystr" where
  "str_strip s = rev (dropWhile is_space (rev (dropWhile is_space s)))"

text \<open>
  \<^verbatim>\<open>s.split()\<close> without arguments follows the interpreter's loop: skip whitespace, stop
  at the end of the string, otherwise take the run of non-whitespace that starts here
  and go on behind it.
\<close>

function str_split :: "pystr \<Rightarrow> pystr list" where
  "str_split s =
     (let s1 = dropWhile is_space s
      in if s1 = [] then []
         else takeWhile (\<lambda>c. \<not> is_space c) s1 # str_split (dropWhile (\<lambda>c. \<not> is_space c) s1))"
  by pat_completeness auto

termination str_split
proof (relation "measure length")
  show "wf (measure (length :: pystr \<Rightarrow> nat))"
    by simp
next
  fix s s1 :: pystr
  assume s1: "s1 = dropWhile is_space s" and ne: "s1 \<noteq> []"
  from ne obtain c cs where eq: "s1 = c # cs"
    by (cases s1) auto
  have "dropWhile is_space s \<noteq> []"
    using ne unfolding s1 .
  then have "\<not> is_space (hd (dropWhile is_space s))"
    by (rule hd_dropWhile)
  then have "\<not> is_space (hd s1)"
    unfolding s1 .
  then have "\<not> is_space c"
    by (simp add: eq)
  then have "length (dropWhile (\<lambda>c. \<not> is_space c) s1) \<le> length cs"
    by (simp add: eq length_dropWhile_le)
  also have "length cs < length s1"
    by (simp add: eq)
  also have "length s1 \<le> length s"
    unfolding s1 by (rule length_dropWhile_le)
  finally show "(dropWhile (\<lambda>c. \<not> is_space c) s1, s) \<in> measure length"
    by simp
qed

declare str_split.simps [simp del]

text \<open>
  \<^verbatim>\<open>bytes\<close> and \<^verbatim>\<open>bytearray\<close> have the same two methods, over ASCII whitespace:
  space, tab, newline, return, vertical tab and form feed.
\<close>

definition is_bspace :: "byte \<Rightarrow> bool" where
  "is_bspace b \<longleftrightarrow> (9 \<le> b \<and> b \<le> 13) \<or> b = 32"

definition bytes_strip :: "byte list \<Rightarrow> byte list" where
  "bytes_strip b = rev (dropWhile is_bspace (rev (dropWhile is_bspace b)))"

function bytes_split :: "byte list \<Rightarrow> byte list list" where
  "bytes_split b =
     (let b1 = dropWhile is_bspace b
      in if b1 = [] then []
         else takeWhile (\<lambda>c. \<not> is_bspace c) b1 #
              bytes_split (dropWhile (\<lambda>c. \<not> is_bspace c) b1))"
  by pat_completeness auto

termination bytes_split
proof (relation "measure length")
  show "wf (measure (length :: byte list \<Rightarrow> nat))"
    by simp
next
  fix b b1 :: "byte list"
  assume b1: "b1 = dropWhile is_bspace b" and ne: "b1 \<noteq> []"
  have "dropWhile is_bspace b \<noteq> []"
    using ne unfolding b1 .
  then have "\<not> is_bspace (hd (dropWhile is_bspace b))"
    by (rule hd_dropWhile)
  then have "dropWhile (\<lambda>c. \<not> is_bspace c) b1 = dropWhile (\<lambda>c. \<not> is_bspace c) (tl b1)"
    using ne unfolding b1 by (cases "dropWhile is_bspace b") simp_all
  then have "length (dropWhile (\<lambda>c. \<not> is_bspace c) b1) =
             length (dropWhile (\<lambda>c. \<not> is_bspace c) (tl b1))"
    by (rule arg_cong)
  also have "\<dots> \<le> length (tl b1)"
    by (rule length_dropWhile_le)
  also have "length (tl b1) < length b1"
    using ne by (cases b1) simp_all
  also have "length b1 \<le> length b"
    unfolding b1 by (rule length_dropWhile_le)
  finally show "(dropWhile (\<lambda>c. \<not> is_bspace c) b1, b) \<in> measure length"
    by simp
qed

declare bytes_split.simps [simp del]

subsection \<open>The entry function\<close>

definition failure_missing_text :: pyval where
  "failure_missing_text =
     PDict [(py_str ''ok'', PBool False),
            (py_str ''error'',
             PDict [(py_str ''message'', PStr (py_str ''Missing required parameter: text''))])]"

definition success :: "pyval \<Rightarrow> pyval" where
  "success d = PDict [(py_str ''ok'', PBool True), (py_str ''data'', d)]"

definition word_data :: "int \<Rightarrow> int \<Rightarrow> pyval list \<Rightarrow> pyval" where
  "word_data wc cc ws =
     PDict [(py_str ''wordCount'', PInt wc),
            (py_str ''characterCount'', PInt cc),
            (py_str ''words'', PList ws)]"

text \<open>
  \<open>run\<close> returns the dictionary (\<open>Inr\<close>) or raises (\<open>Inl\<close>). It does not test the type
  of \<^verbatim>\<open>text\<close>: a true value with the methods \<^verbatim>\<open>strip\<close> and \<^verbatim>\<open>split\<close> (a string,
  bytes, a bytearray) is counted with the methods of its own type, any other true value
  has no attribute \<^verbatim>\<open>strip\<close>.
\<close>

definition run :: "(pystr \<rightharpoonup> pyval) \<Rightarrow> py_error + pyval" where
  "run args =
     (let text = dict_get args (py_str ''text'') (PStr [])
      in if \<not> truthy text then Inr failure_missing_text
         else case text of
                PStr s \<Rightarrow>
                  (let words = filter (\<lambda>w. truthy (PStr w)) (str_split (str_strip s))
                   in Inr (success (word_data (int (length words)) (int (length s))
                                      (map PStr (take 10 words)))))
              | PBytes b \<Rightarrow>
                  (let words = filter (\<lambda>w. truthy (PBytes w)) (bytes_split (bytes_strip b))
                   in Inr (success (word_data (int (length words)) (int (length b))
                                      (map PBytes (take 10 words)))))
              | PByteArray b \<Rightarrow>
                  (let words = filter (\<lambda>w. truthy (PByteArray w))
                                 (bytes_split (bytes_strip b))
                   in Inr (success (word_data (int (length words)) (int (length b))
                                      (map PByteArray (take 10 words)))))
              | _ \<Rightarrow> Inl AttributeError)"

subsection \<open>The two variants of a result\<close>

text \<open>
  The docstring of \<open>run\<close> promises a dictionary with \<^verbatim>\<open>'ok'\<close> and \<^verbatim>\<open>'data'\<close> or
  \<^verbatim>\<open>'error'\<close> fields. \<open>field\<close> reads a key of a dictionary value (the first item with
  that key; no field of a value that is not a dictionary).
\<close>

fun field :: "pyval \<Rightarrow> pystr \<Rightarrow> pyval option" where
  "field (PDict kvs) k = map_of kvs k"
| "field _ k = None"

definition is_success :: "pyval \<Rightarrow> bool" where
  "is_success r \<longleftrightarrow>
     field r (py_str ''ok'') = Some (PBool True) \<and>
     field r (py_str ''data'') \<noteq> None \<and>
     field r (py_str ''error'') = None"

definition is_failure :: "pyval \<Rightarrow> bool" where
  "is_failure r \<longleftrightarrow>
     field r (py_str ''ok'') = Some (PBool False) \<and>
     field r (py_str ''error'') \<noteq> None \<and>
     field r (py_str ''data'') = None"

subsection \<open>Whitespace-separated words\<close>

text \<open>
  The words of a text, read off its description rather than off the code: scan the text
  once from the left; a whitespace character ends the word being read, any other
  character extends it; a word is reported when it ends, if it has a character.
  \<open>ws_scan cur s\<close> has read the characters \<open>cur\<close> of the current word.
\<close>

fun ws_scan :: "pystr \<Rightarrow> pystr \<Rightarrow> pystr list" where
  "ws_scan cur [] = (if cur = [] then [] else [cur])"
| "ws_scan cur (c # cs) =
     (if is_space c then (if cur = [] then ws_scan [] cs else cur # ws_scan [] cs)
      else ws_scan (cur @ [c]) cs)"

definition ws_words :: "pystr \<Rightarrow> pystr list" where
  "ws_words s = ws_scan [] s"

text \<open>\<^verbatim>\<open>isinstance(v, str)\<close>.\<close>

fun is_str :: "pyval \<Rightarrow> bool" where
  "is_str (PStr s) = True"
| "is_str _ = False"


section \<open>The tool engine\<close>

text \<open>
  Modelled from the spec: the engine (registry, runner pool, \<^verbatim>\<open>registerTool\<close> and
  \<^verbatim>\<open>invoke\<close>) is not among the sources; the definitions of this section follow
  sections 3, 4.2, 4.4 and 7 of the specification. Calls are taken one at a time, so
  between two calls every live runner is \<^verbatim>\<open>Ready\<close> and in the pool. What a runner does
  with a tool is seen only through its outcome on the invocation channel.
\<close>

text \<open>
  Modelled from the spec: the result of an invocation is a success with its data or a
  failure with a message and, optionally, a code (section 3).
\<close>

record error_info =
  message :: string
  code :: "string option"

datatype result = Success pyval | Failure error_info

text \<open>
  Modelled from the spec: what the engine observes of a runner that executes one
  invocation: a response frame with a result, no response within the tool's timeout, a
  crash of the execution context, a violated memory or CPU ceiling, or a malformed or
  truncated frame (sections 4.2 to 4.4).
\<close>

datatype runner_outcome =
    Responded result
  | TimedOut
  | Crashed
  | LimitExceeded
  | Malformed

text \<open>
  Modelled from the spec: a tool descriptor has the name, the entry point (here with the
  behaviour of its runner), the resource limits (CPU time, memory, wall-clock timeout)
  and the capability grants; a runner handle has an identity and the tool it is bound
  to; the engine has the registry, the pool of ready runners, the pool size and the
  count of runners spawned so far.
\<close>

record tool_descriptor =
  name :: string
  entrypoint :: "(pystr \<rightharpoonup> pyval) \<Rightarrow> runner_outcome"
  limits :: "nat \<times> nat \<times> nat"
  grants :: "string list"

record runner =
  rid :: nat
  bound_tool :: string

record engine =
  registry :: "string \<rightharpoonup> tool_descriptor"
  pool :: "runner list"
  pool_size :: nat
  spawned :: nat

text \<open>
  Modelled from the spec: an engine starts with no tool and no runner;
  \<^verbatim>\<open>registerTool\<close> enters a descriptor under its name.
\<close>

definition new_engine :: "nat \<Rightarrow> engine" where
  "new_engine n = \<lparr>registry = Map.empty, pool = [], pool_size = n, spawned = 0\<rparr>"

definition registerTool :: "tool_descriptor \<Rightarrow> engine \<Rightarrow> engine" where
  "registerTool d e = e\<lparr>registry := (registry e)(name d \<mapsto> d)\<rparr>"

text \<open>
  Modelled from the spec: a failure the engine synthesizes carries a stable code; the
  specification leaves its message open, here it repeats the code.
\<close>

definition engine_failure :: "string \<Rightarrow> result" where
  "engine_failure c = Failure \<lparr>message = c, code = Some c\<rparr>"

text \<open>
  Modelled from the spec: acquiring a runner takes a ready runner bound to the tool from
  the pool, or spawns one (counted by \<open>spawned\<close>) while the pool is below its size;
  otherwise none is available.
\<close>

definition acquire :: "engine \<Rightarrow> string \<Rightarrow> (runner \<times> engine) option" where
  "acquire e t =
     (case find (\<lambda>r. bound_tool r = t) (pool e) of
        Some r \<Rightarrow> Some (r, e\<lparr>pool := remove1 r (pool e)\<rparr>)
      | None \<Rightarrow>
          if length (pool e) < pool_size e
          then Some (\<lparr>rid = spawned e, bound_tool = t\<rparr>, e\<lparr>spawned := spawned e + 1\<rparr>)
          else None)"

text \<open>
  Modelled from the spec: a runner whose invocation ended with a response is ready again
  and goes back to the pool.
\<close>

definition release :: "runner \<Rightarrow> engine \<Rightarrow> engine" where
  "release r e = e\<lparr>pool := pool e @ [r]\<rparr>"

text \<open>
  Modelled from the spec: \<^verbatim>\<open>invoke(toolName, arguments)\<close> looks the name up first; an
  unknown name is rejected there. Otherwise a runner is acquired and executes the
  invocation; a response releases the runner to the pool, every fault tears it down (it
  does not return to the pool) and becomes a failure with the code of section 7.
\<close>

definition invoke :: "engine \<Rightarrow> string \<Rightarrow> (pystr \<rightharpoonup> pyval) \<Rightarrow> result \<times> engine" where
  "invoke e t args =
     (case registry e t of
        None \<Rightarrow> (engine_failure ''unknown-tool'', e)
      | Some d \<Rightarrow>
          (case acquire e t of
             None \<Rightarrow> (engine_failure ''runner-unavailable'', e)
           | Some (r, e1) \<Rightarrow>
               (case entrypoint d args of
                  Responded res \<Rightarrow> (res, release r e1)
                | TimedOut \<Rightarrow> (engine_failure ''timeout'', e1)
                | Crashed \<Rightarrow> (engine_failure ''runner-crashed'', e1)
                | LimitExceeded \<Rightarrow> (engine_failure ''resource-limit-exceeded'', e1)
                | Malformed \<Rightarrow> (engine_failure ''protocol-error'', e1))))"

section \<open>Properties of the word-count tool\<close>

subsection \<open>Splitting into words\<close>

text \<open>The loop of \<open>str_split\<close>, one character at a time.\<close>

lemma str_split_Nil: "str_split [] = []"
  by (simp add: str_split.simps [of "[]"])

lemma str_split_Cons:
  "str_split (c # cs) =
     (if is_space c then str_split cs
      else (c # takeWhile (\<lambda>c. \<not> is_space c) cs) # str_split (dropWhile (\<lambda>c. \<not> is_space c) cs))"
proof (cases "is_space c")
  case True
  then show ?thesis
    by (simp add: str_split.simps [of "c # cs"] str_split.simps [of cs])
next
  case False
  then show ?thesis
    by (simp add: str_split.simps [of "c # cs"])
qed

lemma ws_scan_str_split:
  "ws_scan cur s =
     (if cur = [] then str_split s
      else (cur @ takeWhile (\<lambda>c. \<not> is_space c) s) # str_split (dropWhile (\<lambda>c. \<not> is_space c) s))"
proof (induction s arbitrary: cur)
  case Nil
  show ?case
    by (simp add: str_split_Nil)
next
  case (Cons c cs)
  show ?case
  proof (cases "is_space c")
    case True
    then show ?thesis
      by (simp add: Cons.IH [of "[]"] str_split_Cons)
  next
    case False
    then show ?thesis
      by (simp add: Cons.IH [of "cur @ [c]"] str_split_Cons)
  qed
qed

lemma str_split_ws_words: "str_split s = ws_words s"
  by (simp add: ws_words_def ws_scan_str_split)

lemma ws_scan_no_empty: "[] \<notin> set (ws_scan cur s)"
  by (induction s arbitrary: cur) auto

lemma ws_scan_spaces: "\<forall>c \<in> set t. is_space c \<Longrightarrow> ws_scan cur t = (if cur = [] then [] else [cur])"
  by (induction t arbitrary: cur) auto

lemma ws_scan_append_spaces:
  "\<forall>c \<in> set t. is_space c \<Longrightarrow> ws_scan cur (s @ t) = ws_scan cur s"
  by (induction s arbitrary: cur) (auto simp: ws_scan_spaces)

lemma ws_scan_dropWhile: "ws_scan [] (dropWhile is_space s) = ws_scan [] s"
  by (induction s) auto

lemma strip_decomp:
  "\<exists>t. (\<forall>c \<in> set t. is_space c) \<and> dropWhile is_space s = str_strip s @ t"
proof -
  let ?u = "dropWhile is_space s"
  let ?t = "rev (takeWhile is_space (rev ?u))"
  have "str_strip s @ ?t = rev (takeWhile is_space (rev ?u) @ dropWhile is_space (rev ?u))"
    unfolding str_strip_def rev_append ..
  also have "\<dots> = rev (rev ?u)"
    by (simp only: takeWhile_dropWhile_id)
  finally have "?u = str_strip s @ ?t"
    by simp
  moreover have "\<forall>c \<in> set ?t. is_space c"
    using set_takeWhileD by fastforce
  ultimately show ?thesis
    by blast
qed

lemma ws_words_strip: "ws_words (str_strip s) = ws_words s"
proof -
  obtain t where t: "\<forall>c \<in> set t. is_space c" and eq: "dropWhile is_space s = str_strip s @ t"
    using strip_decomp by blast
  have "ws_words s = ws_scan [] (dropWhile is_space s)"
    by (simp add: ws_words_def ws_scan_dropWhile)
  also have "\<dots> = ws_scan [] (str_strip s)"
    unfolding eq using t by (rule ws_scan_append_spaces)
  finally show ?thesis
    by (simp add: ws_words_def)
qed

lemma run_words:
  "filter (\<lambda>w. w \<noteq> []) (str_split (str_strip s)) = ws_words s"
proof -
  have "[] \<notin> set (ws_words (str_strip s))"
    by (simp add: ws_words_def ws_scan_no_empty)
  then have "filter (\<lambda>w. w \<noteq> []) (ws_words (str_strip s)) = ws_words (str_strip s)"
    by (auto simp: filter_id_conv)
  then show ?thesis
    by (simp add: str_split_ws_words ws_words_strip)
qed

subsection \<open>What \<open>run\<close> returns\<close>

lemma run_string:
  assumes "args (py_str ''text'') = Some (PStr s)" and "s \<noteq> []"
  shows "run args =
           Inr (success (word_data (int (length (ws_words s))) (int (length s))
                           (map PStr (take 10 (ws_words s)))))"
  using assms by (simp add: run_def dict_get_def run_words Let_def)

lemma run_falsy:
  assumes "args (py_str ''text'') = None \<or> (\<exists>v. args (py_str ''text'') = Some v \<and> \<not> truthy v)"
  shows "run args = Inr failure_missing_text"
  using assms by (auto simp: run_def dict_get_def)




lemma run_returns_cases:
  assumes "run args = Inr r"
  shows "r = failure_missing_text \<or> (\<exists>d. r = success d)"
  using assms
  by (auto simp: run_def dict_get_def Let_def split: option.splits if_splits pyval.splits)

lemma failure_missing_text_shape:
  "is_failure failure_missing_text \<and> \<not> is_success failure_missing_text"
  by (simp add: is_failure_def is_success_def failure_missing_text_def py_str_def)

lemma success_shape: "is_success (success d) \<and> \<not> is_failure (success d)"
  by (simp add: is_failure_def is_success_def success_def py_str_def)

text \<open>
  C1: called with the arguments \<^verbatim>\<open>{"text": "the quick brown fox"}\<close>, \<open>run\<close> returns the
  success dictionary whose data is exactly wordCount 4, characterCount 19 and the words
  the, quick, brown, fox.
\<close>

theorem run_quick_brown_fox:
  "run [py_str ''text'' \<mapsto> PStr (py_str ''the quick brown fox'')] =
     Inr (PDict [(py_str ''ok'', PBool True),
                 (py_str ''data'',
                  PDict [(py_str ''wordCount'', PInt 4),
                         (py_str ''characterCount'', PInt 19),
                         (py_str ''words'',
                          PList [PStr (py_str ''the''), PStr (py_str ''quick''),
                                 PStr (py_str ''brown''), PStr (py_str ''fox'')])])])"
  by (simp add: run_def dict_get_def Let_def str_strip_def str_split_Nil str_split_Cons
      is_space_def py_str_def success_def word_data_def)

text \<open>
  C2: called with the empty arguments mapping, \<open>run\<close> returns (it does not raise) the
  failure dictionary whose error message is exactly "Missing required parameter: text".
\<close>

theorem run_missing_text:
  "run Map.empty =
     Inr (PDict [(py_str ''ok'', PBool False),
                 (py_str ''error'',
                  PDict [(py_str ''message'',
                          PStr (py_str ''Missing required parameter: text''))])])"
  by (simp add: run_def dict_get_def failure_missing_text_def)

text \<open>
  C3: for a string \<open>text\<close> argument, the success data has the full number of
  whitespace-separated words as wordCount and the length of the text as characterCount;
  with more than 10 words its words list holds only the first 10 (so 10 entries, fewer
  than wordCount), with 10 or fewer words (and a text that is not empty, so that there
  is success data) it lists all of them in order.
\<close>

theorem run_words_first_ten:
  assumes "args (py_str ''text'') = Some (PStr s)"
  shows "(10 < length (ws_words s) \<longrightarrow>
            (\<exists>ws. run args =
                    Inr (PDict [(py_str ''ok'', PBool True),
                                (py_str ''data'',
                                 PDict [(py_str ''wordCount'', PInt (int (length (ws_words s)))),
                                        (py_str ''characterCount'', PInt (int (length s))),
                                        (py_str ''words'', PList (map PStr ws))])]) \<and>
                  ws = take 10 (ws_words s) \<and> length ws = 10 \<and>
                  length ws < length (ws_words s))) \<and>
         (length (ws_words s) \<le> 10 \<and> s \<noteq> [] \<longrightarrow>
            run args =
              Inr (PDict [(py_str ''ok'', PBool True),
                          (py_str ''data'',
                           PDict [(py_str ''wordCount'', PInt (int (length (ws_words s)))),
                                  (py_str ''characterCount'', PInt (int (length s))),
                                  (py_str ''words'', PList (map PStr (ws_words s)))])]))"
proof (intro conjI impI)
  assume many: "10 < length (ws_words s)"
  then have "s \<noteq> []"
    by (auto simp: ws_words_def)
  with assms have "run args = Inr (success (word_data (int (length (ws_words s)))
                                     (int (length s)) (map PStr (take 10 (ws_words s)))))"
    by (rule run_string)
  with many show "\<exists>ws. run args =
                    Inr (PDict [(py_str ''ok'', PBool True),
                                (py_str ''data'',
                                 PDict [(py_str ''wordCount'', PInt (int (length (ws_words s)))),
                                        (py_str ''characterCount'', PInt (int (length s))),
                                        (py_str ''words'', PList (map PStr ws))])]) \<and>
                  ws = take 10 (ws_words s) \<and> length ws = 10 \<and>
                  length ws < length (ws_words s)"
    by (simp add: success_def word_data_def)
next
  assume few: "length (ws_words s) \<le> 10 \<and> s \<noteq> []"
  with assms have "run args = Inr (success (word_data (int (length (ws_words s)))
                                     (int (length s)) (map PStr (take 10 (ws_words s)))))"
    by (simp add: run_string)
  with few show "run args =
              Inr (PDict [(py_str ''ok'', PBool True),
                          (py_str ''data'',
                           PDict [(py_str ''wordCount'', PInt (int (length (ws_words s)))),
                                  (py_str ''characterCount'', PInt (int (length s))),
                                  (py_str ''words'', PList (map PStr (ws_words s)))])])"
    by (simp add: success_def word_data_def)
qed

theorem run_words_first_ten_witness:
  "run [py_str ''text'' \<mapsto> PStr (py_str ''a b c d e f g h i j k'')] =
     Inr (PDict [(py_str ''ok'', PBool True),
                 (py_str ''data'',
                  PDict [(py_str ''wordCount'', PInt 11),
                         (py_str ''characterCount'', PInt 21),
                         (py_str ''words'',
                          PList (map (\<lambda>w. PStr (py_str w))
                                   [''a'', ''b'', ''c'', ''d'', ''e'', ''f'', ''g'', ''h'',
                                    ''i'', ''j'']))])]) \<and>
   run [py_str ''text'' \<mapsto> PStr (py_str ''to be'')] =
     Inr (PDict [(py_str ''ok'', PBool True),
                 (py_str ''data'',
                  PDict [(py_str ''wordCount'', PInt 2),
                         (py_str ''characterCount'', PInt 5),
                         (py_str ''words'', PList [PStr (py_str ''to''), PStr (py_str ''be'')])])])"
  using run_words_first_ten [of "[py_str ''text'' \<mapsto> PStr (py_str ''a b c d e f g h i j k'')]"
                               "py_str ''a b c d e f g h i j k''"]
        run_words_first_ten [of "[py_str ''text'' \<mapsto> PStr (py_str ''to be'')]" "py_str ''to be''"]
  by (simp add: ws_words_def py_str_def is_space_def)

text \<open>
  C4: whatever the arguments, a result that \<open>run\<close> returns is exactly one of the two
  variants: a success (ok true, a data field, no error field) or a failure (ok false,
  an error field, no data field), never both and never neither; and \<open>run\<close> does return
  a result whenever \<^verbatim>\<open>"text"\<close> is absent, false or a string.
\<close>

theorem run_result_variant:
  "(run args = Inr r \<longrightarrow>
      (is_success r \<and> \<not> is_failure r) \<or> (is_failure r \<and> \<not> is_success r)) \<and>
   (args (py_str ''text'') = None \<or>
    (\<exists>v. args (py_str ''text'') = Some v \<and> (\<not> truthy v \<or> is_str v)) \<longrightarrow>
      (\<exists>r'. run args = Inr r'))"
proof (intro conjI impI)
  assume "run args = Inr r"
  then have "r = failure_missing_text \<or> (\<exists>d. r = success d)"
    by (rule run_returns_cases)
  then show "(is_success r \<and> \<not> is_failure r) \<or> (is_failure r \<and> \<not> is_success r)"
    using failure_missing_text_shape success_shape by auto
next
  assume "args (py_str ''text'') = None \<or>
          (\<exists>v. args (py_str ''text'') = Some v \<and> (\<not> truthy v \<or> is_str v))"
  then consider
      "args (py_str ''text'') = None \<or> (\<exists>v. args (py_str ''text'') = Some v \<and> \<not> truthy v)"
    | s where "args (py_str ''text'') = Some (PStr s)" and "s \<noteq> []"
  proof (elim disjE exE conjE)
    assume "args (py_str ''text'') = None"
    then show ?thesis using that(1) by simp
  next
    fix v
    assume "args (py_str ''text'') = Some v" and "\<not> truthy v"
    then show ?thesis using that(1) by simp
  next
    fix v
    assume v: "args (py_str ''text'') = Some v" and str: "is_str v"
    show ?thesis
    proof (cases "truthy v")
      case False
      with v show ?thesis using that(1) by simp
    next
      case True
      from str obtain s where "v = PStr s"
        by (cases v) simp_all
      with v True show ?thesis using that(2) [of s] by simp
    qed
  qed
  then show "\<exists>r'. run args = Inr r'"
  proof cases
    case 1
    then have "run args = Inr failure_missing_text"
      by (rule run_falsy)
    then show ?thesis ..
  next
    case (2 s)
    then show ?thesis
      by (simp add: run_string)
  qed
qed

theorem run_result_variant_witness:
  "run Map.empty = Inr failure_missing_text \<and>
   is_failure failure_missing_text \<and> \<not> is_success failure_missing_text \<and>
   (\<exists>r'. run [py_str ''text'' \<mapsto> PStr (py_str ''to be'')] = Inr r')"
proof -
  have ret: "run Map.empty = Inr failure_missing_text"
    by (simp add: run_def dict_get_def)
  have no: "\<not> is_success failure_missing_text"
    by (simp add: is_success_def failure_missing_text_def py_str_def)
  have "is_failure failure_missing_text"
    using run_result_variant [of Map.empty failure_missing_text] ret no by simp
  moreover have "\<exists>r'. run [py_str ''text'' \<mapsto> PStr (py_str ''to be'')] = Inr r'"
    using run_result_variant [of "[py_str ''text'' \<mapsto> PStr (py_str ''to be'')]" PNone]
    by simp
  ultimately show ?thesis
    using ret no by simp
qed

text \<open>
  C5: unknown argument keys are ignored. Two argument mappings that agree on the key
  \<^verbatim>\<open>"text"\<close> (the same value, or absent in both) get the same outcome of \<open>run\<close>;
  adding or removing another key changes nothing.
\<close>

theorem run_ignores_other_keys:
  "(a (py_str ''text'') = b (py_str ''text'') \<longrightarrow> run a = run b) \<and>
   (k \<noteq> py_str ''text'' \<longrightarrow> run (a(k \<mapsto> v)) = run a \<and> run (a(k := None)) = run a)"
  by (simp add: run_def dict_get_def)

theorem run_ignores_other_keys_witness:
  "run [py_str ''text'' \<mapsto> PStr (py_str ''to be''), py_str ''verbose'' \<mapsto> PBool True] =
     run [py_str ''text'' \<mapsto> PStr (py_str ''to be'')] \<and>
   run ([py_str ''text'' \<mapsto> PStr (py_str ''to be'')](py_str ''limit'' \<mapsto> PInt 3)) =
     run [py_str ''text'' \<mapsto> PStr (py_str ''to be'')] \<and>
   run ([py_str ''text'' \<mapsto> PStr (py_str ''to be'')](py_str ''limit'' := None)) =
     run [py_str ''text'' \<mapsto> PStr (py_str ''to be'')]"
  using run_ignores_other_keys
          [of "[py_str ''text'' \<mapsto> PStr (py_str ''to be''), py_str ''verbose'' \<mapsto> PBool True]"
              "[py_str ''text'' \<mapsto> PStr (py_str ''to be'')]"
              "py_str ''limit''" "PInt 3"]
        run_ignores_other_keys
          [of "[py_str ''text'' \<mapsto> PStr (py_str ''to be'')]"
              "[py_str ''text'' \<mapsto> PStr (py_str ''to be'')]"
              "py_str ''limit''" "PInt 3"]
  by (simp add: py_str_def)

text \<open>
  C6: when \<^verbatim>\<open>"text"\<close> is a string that is not empty, \<open>run\<close> returns a success whose
  data has the documented shape: the three fields wordCount, characterCount and words
  (two integers and a list of strings).
\<close>

theorem run_output_shape:
  assumes "args (py_str ''text'') = Some (PStr s)" and "s \<noteq> []"
  shows "\<exists>wc cc ws.
           run args =
             Inr (PDict [(py_str ''ok'', PBool True),
                         (py_str ''data'',
                          PDict [(py_str ''wordCount'', PInt wc),
                                 (py_str ''characterCount'', PInt cc),
                                 (py_str ''words'', PList (map PStr ws))])]) \<and>
           0 \<le> wc \<and> 0 < cc \<and> length ws \<le> 10"
proof (intro exI conjI)
  show "run args =
          Inr (PDict [(py_str ''ok'', PBool True),
                      (py_str ''data'',
                       PDict [(py_str ''wordCount'', PInt (int (length (ws_words s)))),
                              (py_str ''characterCount'', PInt (int (length s))),
                              (py_str ''words'', PList (map PStr (take 10 (ws_words s))))])])"
    using run_string [of args s] assms by (simp add: success_def word_data_def)
  show "0 \<le> int (length (ws_words s))"
    by simp
  show "0 < int (length s)"
    using assms(2) by simp
  show "length (take 10 (ws_words s)) \<le> 10"
    by simp
qed

theorem run_output_shape_witness:
  "\<exists>wc cc ws.
     run [py_str ''text'' \<mapsto> PStr (py_str ''hello world'')] =
       Inr (PDict [(py_str ''ok'', PBool True),
                   (py_str ''data'',
                    PDict [(py_str ''wordCount'', PInt wc),
                           (py_str ''characterCount'', PInt cc),
                           (py_str ''words'', PList (map PStr ws))])]) \<and>
     0 \<le> wc \<and> 0 < cc \<and> length ws \<le> 10"
  using run_output_shape [of "[py_str ''text'' \<mapsto> PStr (py_str ''hello world'')]"
                            "py_str ''hello world''"]
  by (simp add: py_str_def)




text \<open>
  C8: an empty string, like every false value, under \<^verbatim>\<open>"text"\<close> is treated as a
  missing argument: \<open>run\<close> returns the same failure as for the mapping without the key,
  with the message "Missing required parameter: text".
\<close>

theorem run_empty_text_is_missing:
  assumes "args (py_str ''text'') = Some v" and "\<not> truthy v"
  shows "run args = run Map.empty \<and>
         run args =
           Inr (PDict [(py_str ''ok'', PBool False),
                       (py_str ''error'',
                        PDict [(py_str ''message'',
                                PStr (py_str ''Missing required parameter: text''))])])"
  using assms by (simp add: run_falsy failure_missing_text_def)

theorem run_empty_text_is_missing_witness:
  "run [py_str ''text'' \<mapsto> PStr []] = run Map.empty \<and>
   run [py_str ''text'' \<mapsto> PStr []] =
     Inr (PDict [(py_str ''ok'', PBool False),
                 (py_str ''error'',
                  PDict [(py_str ''message'',
                          PStr (py_str ''Missing required parameter: text''))])])"
proof -
  have "[py_str ''text'' \<mapsto> PStr []] (py_str ''text'') = Some (PStr [])"
    by simp
  moreover have "\<not> truthy (PStr [])"
    by simp
  ultimately show ?thesis
    by (rule run_empty_text_is_missing [of "[py_str ''text'' \<mapsto> PStr []]" "PStr []"])
qed

section \<open>Properties of the tool engine\<close>

text \<open>
  Registration neither spawns nor pools a runner, so an engine that has only registered
  tools has spawn counter 0; the first call of a registered tool does spawn one.
\<close>

lemma registerTool_spawned: "spawned (registerTool d e) = spawned e"
  by (simp add: registerTool_def)

lemma registerTool_pool: "pool (registerTool d e) = pool e"
  by (simp add: registerTool_def)

lemma registry_registerTool:
  "registry (registerTool d e) t = (if t = name d then Some d else registry e t)"
  by (simp add: registerTool_def)

lemma registered_names:
  "registry (foldr registerTool ds (new_engine n)) t = None \<longleftrightarrow> t \<notin> name ` set ds"
  by (induction ds) (auto simp: registry_registerTool new_engine_def)

lemma fresh_engine_idle:
  "spawned (foldr registerTool ds (new_engine n)) = 0 \<and>
   pool (foldr registerTool ds (new_engine n)) = []"
  by (induction ds) (simp_all add: registerTool_spawned registerTool_pool new_engine_def)

lemma acquire_spawns:
  assumes "acquire e t = Some (r, e1)" and "find (\<lambda>r. bound_tool r = t) (pool e) = None"
  shows "spawned e1 = Suc (spawned e)"
  using assms by (auto simp: acquire_def split: if_splits)

lemma invoke_registered_first_call:
  assumes "registry e t = Some d" and "pool e = []" and "0 < pool_size e"
  shows "spawned (snd (invoke e t args)) = Suc (spawned e)"
  using assms
  by (simp add: invoke_def acquire_def release_def split: runner_outcome.splits)

text \<open>
  C9: for a name that is not in the registry and any arguments, \<open>invoke\<close> answers with a
  failure of code "unknown-tool" and leaves the engine as it was: no runner is spawned
  or taken from the pool, and a spawn counter of 0 stays 0.
\<close>

theorem invoke_unknown_tool:
  assumes "registry e N = None"
  shows "(\<exists>m. fst (invoke e N args) = Failure \<lparr>message = m, code = Some ''unknown-tool''\<rparr>) \<and>
         snd (invoke e N args) = e \<and>
         (spawned e = 0 \<longrightarrow> spawned (snd (invoke e N args)) = 0)"
  using assms by (simp add: invoke_def engine_failure_def)

theorem invoke_unknown_tool_witness:
  "(\<exists>m. fst (invoke (registerTool \<lparr>name = ''word-count'', entrypoint = (\<lambda>a. Crashed),
                                   limits = (1, 1, 1), grants = []\<rparr> (new_engine 2))
                 ''no-such-tool'' Map.empty) =
          Failure \<lparr>message = m, code = Some ''unknown-tool''\<rparr>) \<and>
   spawned (snd (invoke (registerTool \<lparr>name = ''word-count'', entrypoint = (\<lambda>a. Crashed),
                                      limits = (1, 1, 1), grants = []\<rparr> (new_engine 2))
                    ''no-such-tool'' Map.empty)) = 0"
  using invoke_unknown_tool
          [of "registerTool \<lparr>name = ''word-count'', entrypoint = (\<lambda>a. Crashed),
                             limits = (1, 1, 1), grants = []\<rparr> (new_engine 2)"
              "''no-such-tool''" Map.empty]
  by (simp add: registerTool_def new_engine_def)

end
